theory Spec2Isabelle
  imports Main
begin

unbundle bit_operations_syntax

section \<open>A shallow embedding of the Tomasulo scheduling engine\<close>

text \<open>
  The engine of \<^verbatim>\<open>tomasulo.py\<close> is a Python class whose methods mutate the object.
  Here the object is a record, each method is a function from the state to either an
  error or the new state, and each loop over the station bank is a recursion over the
  list of bank positions. Python integers are unbounded, so every numeric field is an
  \<^typ>\<open>int\<close>. Printing, the GUI and the tutorial prompt change no field of the engine
  and are left out.
\<close>

subsection \<open>Errors\<close>

text \<open>
  \<open>IndexError\<close>: a list index out of range, or the front of an empty deque.
  \<open>KeyError\<close>: a missing key of \<^verbatim>\<open>station_id_to_index\<close>.
  \<open>SystemExit\<close>: the decoder's \<^verbatim>\<open>exit(1)\<close>.
  \<open>AttributeError\<close>: an attribute that the object does not have.
\<close>

datatype error = IndexError | KeyError | SystemExit | AttributeError

definition ebind :: "error + 'a \<Rightarrow> ('a \<Rightarrow> error + 'b) \<Rightarrow> error + 'b" where
  "ebind m f = (case m of Inl e \<Rightarrow> Inl e | Inr x \<Rightarrow> f x)"

text \<open>Python's \<^verbatim>\<open>xs[i]\<close> for a list of length \<open>n\<close>: a negative index counts from the end.\<close>

definition py_index :: "nat \<Rightarrow> int \<Rightarrow> error + nat" where
  "py_index n i =
     (if 0 \<le> i \<and> i < int n then Inr (nat i)
      else if - int n \<le> i \<and> i < 0 then Inr (nat (i + int n))
      else Inl IndexError)"

definition list_get :: "'a list \<Rightarrow> nat \<Rightarrow> error + 'a" where
  "list_get xs i = (if i < length xs then Inr (xs ! i) else Inl IndexError)"

subsection \<open>instruction.py\<close>

datatype InstructionCategory = LOAD | STORE | BEQ | JUMP | ADDITION | MUL | NOR

fun category_value :: "InstructionCategory \<Rightarrow> nat" where
  "category_value LOAD = 0"
| "category_value STORE = 1"
| "category_value BEQ = 2"
| "category_value JUMP = 3"
| "category_value ADDITION = 4"
| "category_value MUL = 5"
| "category_value NOR = 6"

datatype ResStationOp = CALL | RET | ADD | ADDI

text \<open>
  The fields of class \<^verbatim>\<open>Instruction\<close>, without the source string. The field
  \<^verbatim>\<open>op\<close> is \<open>inst_op\<close> here, since the station has a field of the same name.
\<close>

record Instruction =
  index :: int
  category :: InstructionCategory
  inst_op :: "ResStationOp option"
  issue :: int
  exec_start :: int
  exec_end :: int
  write_back :: int
  rd :: nat
  rs :: nat
  rt :: nat
  imm :: int

text \<open>
  A line of the program file after the regular expression of its mnemonic has matched:
  the register numbers (the digits after the first character of a register name) and
  the immediate. A register number is any natural number; the decoder does not bound it.
\<close>

datatype asm =
    Load nat int nat    \<comment> \<open>\<^verbatim>\<open>LOAD Rd, imm(Rs)\<close>\<close>
  | Store nat int nat   \<comment> \<open>\<^verbatim>\<open>STORE Rt, imm(Rs)\<close>\<close>
  | Beq nat nat int     \<comment> \<open>\<^verbatim>\<open>BEQ Rs, Rt, imm\<close>\<close>
  | Call int            \<comment> \<open>\<^verbatim>\<open>CALL imm\<close>\<close>
  | Ret                 \<comment> \<open>\<^verbatim>\<open>RET\<close>\<close>
  | Add nat nat nat     \<comment> \<open>\<^verbatim>\<open>ADD Rd, Rs, Rt\<close>\<close>
  | Addi nat nat int    \<comment> \<open>\<^verbatim>\<open>ADDI Rd, Rs, imm\<close>\<close>
  | Mul nat nat nat     \<comment> \<open>\<^verbatim>\<open>MUL Rd, Rs, Rt\<close>\<close>
  | Nor nat nat nat     \<comment> \<open>\<^verbatim>\<open>NOR Rd, Rs, Rt\<close>\<close>

definition new_instruction :: "int \<Rightarrow> InstructionCategory \<Rightarrow> ResStationOp option \<Rightarrow> Instruction" where
  "new_instruction k c opn =
     \<lparr>index = k, category = c, inst_op = opn, issue = 0, exec_start = 0, exec_end = 0,
      write_back = 0, rd = 0, rs = 0, rt = 0, imm = 0\<rparr>"

text \<open>\<^verbatim>\<open>Instruction.parse_instruction\<close>: the fields of each form and the range checks.\<close>

fun parse_instruction :: "asm \<Rightarrow> int \<Rightarrow> error + Instruction" where
  "parse_instruction (Load d n s) k =
     (if n < -16 \<or> n > 15 then Inl SystemExit
      else Inr ((new_instruction k LOAD None)\<lparr>rd := d, rs := s, imm := n\<rparr>))"
| "parse_instruction (Store t n s) k =
     (if n < -16 \<or> n > 15 then Inl SystemExit
      else Inr ((new_instruction k STORE None)\<lparr>rt := t, imm := n, rs := s\<rparr>))"
| "parse_instruction (Beq s t n) k =
     (if n < -16 \<or> n > 15 then Inl SystemExit
      else Inr ((new_instruction k BEQ None)\<lparr>rs := s, rt := t, imm := n\<rparr>))"
| "parse_instruction (Call n) k =
     (if n < -64 \<or> n > 63 then Inl SystemExit
      else Inr ((new_instruction k JUMP (Some CALL))\<lparr>rd := 1, imm := n\<rparr>))"
| "parse_instruction Ret k = Inr ((new_instruction k JUMP (Some RET))\<lparr>rs := 1\<rparr>)"
| "parse_instruction (Add d s t) k =
     Inr ((new_instruction k ADDITION (Some ADD))\<lparr>rd := d, rs := s, rt := t\<rparr>)"
| "parse_instruction (Addi d s n) k =
     (if n < -16 \<or> n > 15 then Inl SystemExit
      else Inr ((new_instruction k ADDITION (Some ADDI))\<lparr>rd := d, rs := s, imm := n\<rparr>))"
| "parse_instruction (Mul d s t) k =
     Inr ((new_instruction k MUL None)\<lparr>rd := d, rs := s, rt := t\<rparr>)"
| "parse_instruction (Nor d s t) k =
     Inr ((new_instruction k NOR None)\<lparr>rd := d, rs := s, rt := t\<rparr>)"

subsection \<open>reservation\_station.py\<close>

text \<open>
  The fields of class \<^verbatim>\<open>ReservationStation\<close>, without the printed name. The fields
  \<^verbatim>\<open>id\<close> and \<^verbatim>\<open>a\<close> are \<open>station_id\<close> and \<open>st_a\<close>. The BEQ result, a Python
  \<^verbatim>\<open>bool\<close>, is 1 or 0.
\<close>

record ReservationStation =
  station_id :: int
  busy :: bool
  op :: "ResStationOp option"
  vj :: int
  vk :: int
  qj :: int
  qk :: int
  st_a :: int
  cycles_for_exec :: int
  cycles_for_addr :: int
  rem_cycles_exec :: int
  rem_cycles_addr :: int
  inst_index :: int
  result :: int

definition new_station :: "int \<Rightarrow> int \<Rightarrow> int \<Rightarrow> ReservationStation" where
  "new_station i ce ca =
     \<lparr>station_id = i, busy = False, op = None, vj = 0, vk = 0, qj = 0, qk = 0, st_a = 0,
      cycles_for_exec = ce, cycles_for_addr = ca, rem_cycles_exec = -1,
      rem_cycles_addr = -1, inst_index = -1, result = -1\<rparr>"

subsection \<open>tomasulo.py: the state\<close>

text \<open>Class \<^verbatim>\<open>SystemStatus\<close>: the issue cycle and a copy of the rename table.\<close>

record SystemStatus =
  ss_issue :: int
  ss_register_status :: "int list"

text \<open>
  Class \<^verbatim>\<open>Tomasulo\<close>. The memory list of 65536 words is a function on the addresses
  below 65536; \<open>mem_index\<close> is the bounds check of the list. The two deques are lists
  with the front at the head.
\<close>

record Tomasulo =
  memory :: "nat \<Rightarrow> int"
  registers :: "int list"
  program :: "Instruction list"
  reservation_stations :: "ReservationStation list list"
  station_id_to_index :: "int \<Rightarrow> (nat \<times> nat) option"
  register_status :: "int list"
  load_store_queue :: "int list"
  system_status_queue :: "SystemStatus list"
  pc :: int
  cycle :: int
  num_beq :: int
  num_mispredictions :: int
  num_written_insts :: int

definition NUM_REGISTERS :: nat where
  "NUM_REGISTERS = 8"

definition NUM_RES_STATIONS_Types :: nat where
  "NUM_RES_STATIONS_Types = 7"

definition mem_index :: "int \<Rightarrow> error + nat" where
  "mem_index i = py_index 65536 i"

subsection \<open>Construction\<close>

text \<open>\<^verbatim>\<open>_read_instructions\<close>: decode the lines in order; the first failure ends the process.\<close>

fun read_instructions :: "asm list \<Rightarrow> Instruction list \<Rightarrow> error + Instruction list" where
  "read_instructions [] acc = Inr acc"
| "read_instructions (l # ls) acc =
     ebind (parse_instruction l (int (length acc))) (\<lambda>i. read_instructions ls (acc @ [i]))"

text \<open>
  A row of the hardware configuration: the number of stations, the cycles to execute and,
  when the line has a third number, the cycles to compute the address.
\<close>

type_synonym hw_row = "nat \<times> int \<times> int option"

definition default_hardware :: "hw_row list" where
  "default_hardware =
     [(2, 2, Some 4), (2, 2, Some 4), (2, 1, None), (1, 1, None),
      (4, 2, None), (2, 10, None), (2, 1, None)]"

text \<open>
  One row of stations, with ids counted from \<open>n\<close>. The default table reads the third
  number for LOAD and STORE only; a hardware file gives it to any row that has one.
\<close>

definition make_row :: "int \<Rightarrow> nat \<Rightarrow> int \<Rightarrow> int \<Rightarrow> ReservationStation list" where
  "make_row n num ce ca = map (\<lambda>j. new_station (n + int j) ce ca) [0..<num]"

fun initialize_rows :: "bool \<Rightarrow> hw_row list \<Rightarrow> nat \<Rightarrow> int \<Rightarrow> error + ReservationStation list list" where
  "initialize_rows dflt [] i n = Inr []"
| "initialize_rows dflt ((num, ce, ca) # rows) i n =
     (if \<not> dflt \<and> 0 < num \<and> 7 \<le> i then Inl IndexError
      else ebind (initialize_rows dflt rows (Suc i) (n + int num))
        (\<lambda>rest. Inr (make_row n num ce
           (if dflt then (if i < 2 then (case ca of Some c \<Rightarrow> c | None \<Rightarrow> 0) else 0)
            else (case ca of Some c \<Rightarrow> c | None \<Rightarrow> 0)) # rest)))"

text \<open>The dictionary \<^verbatim>\<open>station_id_to_index\<close> of a bank: the position of each id.\<close>

fun id_table :: "ReservationStation list list \<Rightarrow> nat \<Rightarrow> int \<Rightarrow> (nat \<times> nat) option" where
  "id_table [] i = (\<lambda>k. None)"
| "id_table (row # rows) i =
     (\<lambda>k. case find (\<lambda>j. station_id (row ! j) = k) [0..<length row] of
             Some j \<Rightarrow> Some (i, j)
           | None \<Rightarrow> id_table rows (Suc i) k)"

text \<open>
  \<^verbatim>\<open>Tomasulo.__init__\<close> with \<^verbatim>\<open>_initialize_hardware\<close>. With the default hardware the
  file argument is not read.
\<close>

definition init :: "asm list \<Rightarrow> bool \<Rightarrow> hw_row list \<Rightarrow> int \<Rightarrow> error + Tomasulo" where
  "init instruction_file is_default_hardware hardware_file initial_PC =
     ebind (read_instructions instruction_file []) (\<lambda>prog.
     ebind (initialize_rows is_default_hardware
              (if is_default_hardware then default_hardware else hardware_file) 0 1) (\<lambda>bank.
     Inr \<lparr>memory = (\<lambda>_. 0),
          registers = [0, 1, 2, 3, 4, 5, 6, 7][0 := 0],
          program = prog,
          reservation_stations = bank,
          station_id_to_index = id_table bank 0,
          register_status = replicate NUM_REGISTERS 0,
          load_store_queue = [],
          system_status_queue = [],
          pc = initial_PC,
          cycle = 1,
          num_beq = 0,
          num_mispredictions = 0,
          num_written_insts = 0\<rparr>))"

text \<open>\<^verbatim>\<open>initialize_memory\<close>: one assignment per line of the memory file.\<close>

fun initialize_memory :: "(int \<times> int) list \<Rightarrow> Tomasulo \<Rightarrow> error + Tomasulo" where
  "initialize_memory [] s = Inr s"
| "initialize_memory ((address, v) # ls) s =
     ebind (mem_index address) (\<lambda>k. initialize_memory ls (s\<lparr>memory := (memory s)(k := v)\<rparr>))"

subsection \<open>Access to the bank and the program\<close>

text \<open>A bank position is (category, slot). The objects of the source are the entries here.\<close>

definition get_station :: "Tomasulo \<Rightarrow> nat \<times> nat \<Rightarrow> ReservationStation" where
  "get_station s p = reservation_stations s ! fst p ! snd p"

definition set_station :: "Tomasulo \<Rightarrow> nat \<times> nat \<Rightarrow> ReservationStation \<Rightarrow> Tomasulo" where
  "set_station s p st =
     s\<lparr>reservation_stations :=
         (reservation_stations s)[fst p := (reservation_stations s ! fst p)[snd p := st]]\<rparr>"

definition set_inst :: "Tomasulo \<Rightarrow> nat \<Rightarrow> Instruction \<Rightarrow> Tomasulo" where
  "set_inst s k i = s\<lparr>program := (program s)[k := i]\<rparr>"

text \<open>\<^verbatim>\<open>self.program[i]\<close>: the position of the instruction, or IndexError.\<close>

definition inst_at :: "Tomasulo \<Rightarrow> int \<Rightarrow> error + nat" where
  "inst_at s i = py_index (length (program s)) i"

text \<open>The positions that \<^verbatim>\<open>for i in cats: for s in self.reservation_stations[i]\<close> visits.\<close>

definition positions :: "ReservationStation list list \<Rightarrow> nat list \<Rightarrow> (nat \<times> nat) list" where
  "positions bank cats = concat (map (\<lambda>i. map (\<lambda>j. (i, j)) [0..<length (bank ! i)]) cats)"

text \<open>A loop whose body may raise: the first error ends it.\<close>

fun for_each :: "('s \<Rightarrow> 'p \<Rightarrow> error + 's) \<Rightarrow> 'p list \<Rightarrow> 's \<Rightarrow> error + 's" where
  "for_each f [] s = Inr s"
| "for_each f (p # ps) s = ebind (f s p) (for_each f ps)"

subsection \<open>Issue\<close>

definition read_first_operand :: "Tomasulo \<Rightarrow> Instruction \<Rightarrow> ReservationStation \<Rightarrow> error + ReservationStation" where
  "read_first_operand s inst st =
     ebind (list_get (register_status s) (rs inst)) (\<lambda>q.
       if q \<noteq> 0 then Inr (st\<lparr>qj := q\<rparr>)
       else ebind (list_get (registers s) (rs inst)) (\<lambda>v. Inr (st\<lparr>vj := v, qj := 0\<rparr>)))"

definition read_second_operand :: "Tomasulo \<Rightarrow> Instruction \<Rightarrow> ReservationStation \<Rightarrow> error + ReservationStation" where
  "read_second_operand s inst st =
     ebind (list_get (register_status s) (rt inst)) (\<lambda>q.
       if q \<noteq> 0 then Inr (st\<lparr>qk := q\<rparr>)
       else ebind (list_get (registers s) (rt inst)) (\<lambda>v. Inr (st\<lparr>vk := v, qk := 0\<rparr>)))"

text \<open>
  The rename of the destination: into the live table when no snapshot is pending,
  otherwise into the newest snapshot.
\<close>

definition rename_destination :: "Instruction \<Rightarrow> int \<Rightarrow> Tomasulo \<Rightarrow> error + Tomasulo" where
  "rename_destination inst sid s =
     (if rd inst \<noteq> 0 then
        (if system_status_queue s = [] then
           (if rd inst < length (register_status s)
            then Inr (s\<lparr>register_status := (register_status s)[rd inst := sid]\<rparr>)
            else Inl IndexError)
         else
           (let top = last (system_status_queue s) in
            if rd inst < length (ss_register_status top)
            then Inr (s\<lparr>system_status_queue := butlast (system_status_queue s) @
                      [top\<lparr>ss_register_status := (ss_register_status top)[rd inst := sid]\<rparr>]\<rparr>)
            else Inl IndexError))
      else Inr s)"

definition push_system_status :: "Tomasulo \<Rightarrow> Tomasulo" where
  "push_system_status s =
     (if system_status_queue s = [] then
        s\<lparr>system_status_queue :=
            [\<lparr>ss_issue = cycle s, ss_register_status = register_status s\<rparr>]\<rparr>
      else
        s\<lparr>system_status_queue := system_status_queue s @
            [\<lparr>ss_issue = cycle s,
              ss_register_status = ss_register_status (last (system_status_queue s))\<rparr>]\<rparr>)"

text \<open>
  \<^verbatim>\<open>Tomasulo.issue\<close>: the first station of the category that is not busy takes the
  instruction at \<open>pc\<close>; with none free nothing changes.
\<close>

definition issue_stage :: "Tomasulo \<Rightarrow> error + Tomasulo" where
  "issue_stage s =
     ebind (inst_at s (pc s)) (\<lambda>k.
     let inst = program s ! k; c = category_value (category inst) in
     ebind (list_get (reservation_stations s) c) (\<lambda>row.
     case find (\<lambda>j. \<not> busy (row ! j)) [0..<length row] of
       None \<Rightarrow> Inr s
     | Some j \<Rightarrow>
        (let s1 = set_inst s k (inst\<lparr>issue := cycle s\<rparr>);
             st = (row ! j)\<lparr>busy := True, st_a := imm inst, op := inst_op inst,
                      rem_cycles_exec := cycles_for_exec (row ! j),
                      rem_cycles_addr := cycles_for_addr (row ! j),
                      inst_index := pc s\<rparr>
         in ebind (read_first_operand s1 inst st) (\<lambda>st1.
            ebind (read_second_operand s1 inst st1) (\<lambda>st2.
            ebind (rename_destination inst (station_id st2) (set_station s1 (c, j) st2)) (\<lambda>s2.
            let s3 = (if category inst = LOAD \<or> category inst = STORE
                      then s2\<lparr>load_store_queue := load_store_queue s2 @ [pc s2]\<rparr> else s2);
                s4 = (if category inst = BEQ \<or> category inst = JUMP
                      then push_system_status s3 else s3)
            in Inr (s4\<lparr>pc := pc s4 + 1\<rparr>)))))))"

subsection \<open>Execute\<close>

text \<open>\<^verbatim>\<open>exec_result\<close>. No branch matches LOAD or STORE, whose result is set elsewhere.\<close>

definition exec_result :: "InstructionCategory \<Rightarrow> ReservationStation \<Rightarrow> ReservationStation" where
  "exec_result c st =
     (if c = BEQ then st\<lparr>result := (if vj st = vk st then 1 else 0)\<rparr>
      else if c = JUMP then
        (if op st = Some CALL then st\<lparr>result := inst_index st + 1\<rparr>
         else st\<lparr>result := vj st\<rparr>)
      else if c = ADDITION then
        (if op st = Some ADD then st\<lparr>result := vj st + vk st\<rparr>
         else st\<lparr>result := vj st + st_a st\<rparr>)
      else if c = MUL then st\<lparr>result := (vj st * vk st) AND 65535\<rparr>
      else if c = NOR then st\<lparr>result := NOT (vj st OR vk st)\<rparr>
      else st)"

text \<open>The gate of both sub-phases: younger than the oldest pending snapshot.\<close>

definition speculation_gate :: "Tomasulo \<Rightarrow> Instruction \<Rightarrow> bool" where
  "speculation_gate s inst =
     (system_status_queue s \<noteq> [] \<and> issue inst > ss_issue (hd (system_status_queue s)))"

text \<open>The body of the first loop of \<^verbatim>\<open>execute\<close> (categories 2 to 6) for one station.\<close>

definition execute_station :: "Tomasulo \<Rightarrow> nat \<times> nat \<Rightarrow> error + Tomasulo" where
  "execute_station s p =
     (let st = get_station s p in
      if \<not> busy st then Inr s
      else ebind (inst_at s (inst_index st)) (\<lambda>k.
        let inst = program s ! k in
        if \<not> issue inst < cycle s then Inr s
        else if speculation_gate s inst then Inr s
        else if qj st = 0 \<and> qk st = 0 \<and> issue inst \<le> cycle s \<and> rem_cycles_exec st \<noteq> 0 then
          (let inst1 = (if rem_cycles_exec st = cycles_for_exec st \<and> \<not> exec_start inst > 0
                        then inst\<lparr>exec_start := cycle s\<rparr> else inst);
               st1 = (if rem_cycles_exec st \<noteq> 0
                      then st\<lparr>rem_cycles_exec := rem_cycles_exec st - 1\<rparr> else st)
           in if rem_cycles_exec st1 = 0
              then Inr (set_inst (set_station s p (exec_result (category inst1) st1)) k
                          (inst1\<lparr>exec_end := cycle s\<rparr>))
              else Inr (set_inst (set_station s p st1) k inst1))
        else Inr s))"

text \<open>
  The hazard scan of the second loop: is there a busy station in the row that has not
  finished executing, whose instruction was issued before cycle \<open>iss\<close>, with address \<open>ad\<close>?
\<close>

fun older_same_address :: "Tomasulo \<Rightarrow> ReservationStation list \<Rightarrow> int \<Rightarrow> int \<Rightarrow> error + bool" where
  "older_same_address s [] iss ad = Inr False"
| "older_same_address s (x # xs) iss ad =
     (if busy x \<and> rem_cycles_exec x \<noteq> 0 then
        ebind (inst_at s (inst_index x)) (\<lambda>k.
          if issue (program s ! k) < iss \<and> st_a x = ad then Inr True
          else older_same_address s xs iss ad)
      else older_same_address s xs iss ad)"

text \<open>
  The address phase of a memory station that holds the head of the load/store queue:
  count down, and at zero replace \<open>a\<close> by the effective address and read memory there.
  The flag says whether the queue head is to be dropped after the loop.
\<close>

definition resolve_address ::
  "Tomasulo \<Rightarrow> bool \<Rightarrow> nat \<times> nat \<Rightarrow> ReservationStation \<Rightarrow> nat \<Rightarrow> error + Tomasulo \<times> bool" where
  "resolve_address s queue_pop p st k =
     (let inst = program s ! k;
          inst1 = (if rem_cycles_addr st = cycles_for_addr st
                   then inst\<lparr>exec_start := cycle s\<rparr> else inst);
          st1 = (if rem_cycles_addr st \<noteq> 0
                 then st\<lparr>rem_cycles_addr := rem_cycles_addr st - 1\<rparr> else st);
          s1 = set_inst s k inst1
      in if rem_cycles_addr st1 = 0 then
           (let st2 = st1\<lparr>st_a := vj st1 + st_a st1\<rparr> in
            ebind (mem_index (st_a st2)) (\<lambda>m.
              Inr (set_station s1 p (st2\<lparr>result := memory s1 m\<rparr>), True)))
         else Inr (set_station s1 p st1, queue_pop))"

text \<open>The execution phase of a memory station, after its address is resolved.\<close>

definition execute_memory_access ::
  "Tomasulo \<Rightarrow> nat \<times> nat \<Rightarrow> ReservationStation \<Rightarrow> nat \<Rightarrow> error + Tomasulo" where
  "execute_memory_access s p st k =
     ebind (older_same_address s (reservation_stations s ! 1) (issue (program s ! k)) (st_a st))
       (\<lambda>waw.
     ebind (if fst p = 1
            then older_same_address s (reservation_stations s ! 0) (issue (program s ! k)) (st_a st)
            else Inr False) (\<lambda>war.
     let st1 = (if fst p = 1 then
                  (if \<not> war \<and> \<not> waw then st\<lparr>rem_cycles_exec := rem_cycles_exec st - 1\<rparr> else st)
                else if \<not> waw then st\<lparr>rem_cycles_exec := rem_cycles_exec st - 1\<rparr> else st)
     in if rem_cycles_exec st1 = 0 then
          (let s1 = set_inst s k ((program s ! k)\<lparr>exec_end := cycle s\<rparr>) in
           if fst p = 0
           then ebind (mem_index (st_a st1)) (\<lambda>m.
                  Inr (set_station s1 p (st1\<lparr>result := memory s1 m\<rparr>)))
           else Inr (set_station s1 p st1))
        else Inr (set_station s p st1)))"

text \<open>The body of the second loop of \<^verbatim>\<open>execute\<close> (LOAD and STORE) for one station.\<close>

definition execute_memory_station :: "Tomasulo \<times> bool \<Rightarrow> nat \<times> nat \<Rightarrow> error + Tomasulo \<times> bool" where
  "execute_memory_station sq p =
     (let s = fst sq; queue_pop = snd sq; st = get_station s p in
      if \<not> busy st then Inr sq
      else ebind (inst_at s (inst_index st)) (\<lambda>k.
        let inst = program s ! k in
        if \<not> issue inst < cycle s then Inr sq
        else if speculation_gate s inst then Inr sq
        else if rem_cycles_addr st \<noteq> 0 then
          (if qj st = 0 then
             (case load_store_queue s of
                [] \<Rightarrow> Inl IndexError
              | h # _ \<Rightarrow> if h = inst_index st then resolve_address s queue_pop p st k
                         else Inr sq)
           else Inr sq)
        else if rem_cycles_exec st \<noteq> 0 then
          ebind (execute_memory_access s p st k) (\<lambda>s1. Inr (s1, queue_pop))
        else Inr sq))"

text \<open>
  \<^verbatim>\<open>Tomasulo.execute\<close>. Both loops index the bank by category number, so a bank of
  fewer than seven rows raises IndexError.
\<close>

definition execute :: "Tomasulo \<Rightarrow> error + Tomasulo" where
  "execute s =
     (if length (reservation_stations s) < NUM_RES_STATIONS_Types then Inl IndexError
      else
        ebind (for_each execute_station
                 (positions (reservation_stations s) [2..<NUM_RES_STATIONS_Types]) s) (\<lambda>s1.
        ebind (for_each execute_memory_station
                 (positions (reservation_stations s) [0..<2]) (s1, False)) (\<lambda>sq.
        if snd sq then
          (case load_store_queue (fst sq) of
             [] \<Rightarrow> Inl IndexError
           | _ # q \<Rightarrow> Inr ((fst sq)\<lparr>load_store_queue := q\<rparr>))
        else Inr (fst sq))))"

subsection \<open>Write-back\<close>

text \<open>
  The selection loop of \<^verbatim>\<open>write\<close> for one station. The accumulator is
  (\<^verbatim>\<open>min_issue_time\<close>, \<^verbatim>\<open>write_station_id\<close>, \<^verbatim>\<open>write_store_station_id\<close>); the
  source declares \<^verbatim>\<open>min_store_issue_time\<close> as well and never reads it.
\<close>

definition select_station :: "Tomasulo \<Rightarrow> int \<times> int \<times> int \<Rightarrow> nat \<times> nat \<Rightarrow> error + int \<times> int \<times> int" where
  "select_station s acc p =
     (let st = get_station s p; min_issue_time = fst acc;
          write_station_id = fst (snd acc); write_store_station_id = snd (snd acc) in
      if busy st \<and> rem_cycles_exec st = 0 then
        ebind (inst_at s (inst_index st)) (\<lambda>k.
          if exec_end (program s ! k) < cycle s then
            (if fst p = category_value STORE \<and> qk st \<noteq> 0 then Inr acc
             else if issue (program s ! k) < min_issue_time then
               (if fst p = category_value STORE
                then Inr (issue (program s ! k), write_station_id, station_id st)
                else Inr (issue (program s ! k), station_id st, write_store_station_id))
             else Inr acc)
          else Inr acc)
      else Inr acc)"

definition find_write_stations :: "Tomasulo \<Rightarrow> error + int \<times> int \<times> int" where
  "find_write_stations s =
     for_each (select_station s)
       (positions (reservation_stations s) [0..<NUM_RES_STATIONS_Types]) (2 ^ 31 - 1, -1, -1)"

text \<open>\<^verbatim>\<open>self.reservation_stations[i][j]\<close> for the position that the dictionary gives an id.\<close>

definition lookup_station :: "Tomasulo \<Rightarrow> int \<Rightarrow> error + (nat \<times> nat)" where
  "lookup_station s i =
     (case station_id_to_index s i of
        None \<Rightarrow> Inl KeyError
      | Some p \<Rightarrow>
          ebind (list_get (reservation_stations s) (fst p)) (\<lambda>row.
          ebind (list_get row (snd p)) (\<lambda>_. Inr p)))"

text \<open>The retirement of the selected STORE station.\<close>

definition write_store :: "int \<Rightarrow> Tomasulo \<Rightarrow> error + Tomasulo" where
  "write_store write_store_station_id s =
     (if write_store_station_id \<noteq> -1 then
        (let s1 = s\<lparr>num_written_insts := num_written_insts s + 1\<rparr> in
         ebind (lookup_station s1 write_store_station_id) (\<lambda>p.
         let w = (get_station s1 p)\<lparr>busy := False\<rparr>; s2 = set_station s1 p w in
         ebind (inst_at s2 (inst_index w)) (\<lambda>k.
         let s3 = set_inst s2 k ((program s2 ! k)\<lparr>write_back := cycle s2\<rparr>) in
         ebind (mem_index (st_a w)) (\<lambda>m.
         Inr (s3\<lparr>memory := (memory s3)(m := vk w)\<rparr>)))))
      else Inr s)"

text \<open>\<^verbatim>\<open>_flush_instructions_after_jump\<close>: first the stations, then the queue.\<close>

definition clear_status :: "int \<Rightarrow> Tomasulo \<Rightarrow> nat \<Rightarrow> error + Tomasulo" where
  "clear_status sid s j =
     ebind (list_get (register_status s) j) (\<lambda>q.
       if q = sid then Inr (s\<lparr>register_status := (register_status s)[j := 0]\<rparr>) else Inr s)"

definition flush_station :: "int \<Rightarrow> Tomasulo \<Rightarrow> nat \<times> nat \<Rightarrow> error + Tomasulo" where
  "flush_station w_issue s p =
     (let st = get_station s p in
      if busy st then
        ebind (inst_at s (inst_index st)) (\<lambda>k.
          if issue (program s ! k) > w_issue
          then for_each (clear_status (station_id st)) [0..<NUM_REGISTERS]
                 (set_station s p (st\<lparr>busy := False\<rparr>))
          else Inr s)
      else Inr s)"

text \<open>The while loop on the queue: it pops the front as long as the front is younger.\<close>

fun flush_queue :: "Tomasulo \<Rightarrow> int \<Rightarrow> int list \<Rightarrow> error + int list" where
  "flush_queue s w_issue [] = Inr []"
| "flush_queue s w_issue (h # q) =
     ebind (inst_at s h) (\<lambda>k.
       if issue (program s ! k) > w_issue then flush_queue s w_issue q else Inr (h # q))"

definition flush_instructions_after_jump :: "ReservationStation \<Rightarrow> Tomasulo \<Rightarrow> error + Tomasulo" where
  "flush_instructions_after_jump write_station s =
     ebind (inst_at s (inst_index write_station)) (\<lambda>kw.
     let w_issue = issue (program s ! kw) in
     ebind (for_each (flush_station w_issue)
              (positions (reservation_stations s) [0..<NUM_RES_STATIONS_Types]) s) (\<lambda>s1.
     ebind (flush_queue s1 w_issue (load_store_queue s1)) (\<lambda>q.
     Inr (s1\<lparr>load_store_queue := q\<rparr>))))"

text \<open>\<^verbatim>\<open>_broadcast_result\<close> for one station: first operand, then second operand.\<close>

definition broadcast_station :: "ReservationStation \<Rightarrow> int \<Rightarrow> Tomasulo \<Rightarrow> nat \<times> nat \<Rightarrow> error + Tomasulo" where
  "broadcast_station write_station write_station_id s p =
     (let st = get_station s p in
      if busy st then
        ebind (if qj st = write_station_id \<and> write_station_id \<noteq> 0 then
                 (let st1 = st\<lparr>qj := 0, vj := result write_station\<rparr>; s1 = set_station s p st1 in
                  if qk st1 = 0 then
                    ebind (inst_at s1 (inst_index st1)) (\<lambda>k.
                      Inr (set_inst s1 k ((program s1 ! k)\<lparr>exec_start := cycle s1\<rparr>)))
                  else Inr s1)
               else Inr s) (\<lambda>s2.
        let st2 = get_station s2 p in
        if qk st2 = write_station_id \<and> write_station_id \<noteq> 0 then
          (let st3 = st2\<lparr>qk := 0, vk := result write_station\<rparr>; s3 = set_station s2 p st3 in
           if qj st3 = 0 then
             ebind (inst_at s3 (inst_index st3)) (\<lambda>k.
               Inr (set_inst s3 k ((program s3 ! k)\<lparr>exec_start := cycle s3\<rparr>)))
           else Inr s3)
        else Inr s2)
      else Inr s)"

definition broadcast_result :: "ReservationStation \<Rightarrow> int \<Rightarrow> Tomasulo \<Rightarrow> error + Tomasulo" where
  "broadcast_result write_station write_station_id s =
     for_each (broadcast_station write_station write_station_id)
       (positions (reservation_stations s) [0..<NUM_RES_STATIONS_Types]) s"

text \<open>The register loop of a retiring station that is neither a STORE nor a BEQ.\<close>

definition update_register :: "ReservationStation \<Rightarrow> int \<Rightarrow> Tomasulo \<Rightarrow> nat \<Rightarrow> error + Tomasulo" where
  "update_register write_station write_station_id s i =
     ebind (list_get (register_status s) i) (\<lambda>q.
       if q = write_station_id \<and> i \<noteq> 0 then
         (if i < length (registers s)
          then Inr (s\<lparr>registers := (registers s)[i := result write_station],
                      register_status := (register_status s)[i := 0]\<rparr>)
          else Inl IndexError)
       else Inr s)"

text \<open>The restore of a BEQ that was not taken: copy the front snapshot, then drop it.\<close>

definition restore_register :: "Tomasulo \<Rightarrow> nat \<Rightarrow> error + Tomasulo" where
  "restore_register s i =
     (case system_status_queue s of
        [] \<Rightarrow> Inl IndexError
      | front # _ \<Rightarrow>
          ebind (list_get (ss_register_status front) i) (\<lambda>q.
            if i < length (register_status s)
            then Inr (s\<lparr>register_status := (register_status s)[i := q]\<rparr>)
            else Inl IndexError))"

definition write_jump :: "ReservationStation \<Rightarrow> nat \<Rightarrow> Tomasulo \<Rightarrow> error + Tomasulo" where
  "write_jump write_station kw s =
     ebind (if op write_station = Some CALL then
              (if 1 < length (registers s)
               then Inr (s\<lparr>registers := (registers s)[1 := st_a write_station],
                           pc := st_a write_station + index (program s ! kw) + 1\<rparr>)
               else Inl IndexError)
            else Inr (s\<lparr>pc := vj write_station\<rparr>)) (\<lambda>s1.
     flush_instructions_after_jump write_station (s1\<lparr>system_status_queue := []\<rparr>))"

definition write_beq :: "ReservationStation \<Rightarrow> nat \<Rightarrow> Tomasulo \<Rightarrow> error + Tomasulo" where
  "write_beq write_station kw s =
     (let s1 = s\<lparr>num_beq := num_beq s + 1\<rparr> in
      if result write_station = 1 then
        flush_instructions_after_jump write_station
          (s1\<lparr>pc := 1 + index (program s1 ! kw) + st_a write_station,
              num_mispredictions := num_mispredictions s1 + 1,
              system_status_queue := []\<rparr>)
      else
        ebind (for_each restore_register [0..<NUM_REGISTERS] s1) (\<lambda>s2.
        case system_status_queue s2 of
          [] \<Rightarrow> Inl IndexError
        | _ # q \<Rightarrow> Inr (s2\<lparr>system_status_queue := q\<rparr>)))"

text \<open>The retirement of the selected station of another category.\<close>

definition write_other :: "int \<Rightarrow> Tomasulo \<Rightarrow> error + Tomasulo" where
  "write_other write_station_id s =
     (if write_station_id \<noteq> -1 then
        (let s1 = s\<lparr>num_written_insts := num_written_insts s + 1\<rparr> in
         ebind (lookup_station s1 write_station_id) (\<lambda>p.
         let write_station = (get_station s1 p)\<lparr>busy := False\<rparr>;
             s2 = set_station s1 p write_station in
         ebind (inst_at s2 (inst_index write_station)) (\<lambda>kw.
         let s3 = set_inst s2 kw ((program s2 ! kw)\<lparr>write_back := cycle s2\<rparr>);
             cat = fst p in
         ebind (if cat = category_value JUMP then write_jump write_station kw s3
                else if cat = category_value BEQ then write_beq write_station kw s3
                else Inr s3) (\<lambda>s4.
         if cat \<noteq> category_value STORE \<and> cat \<noteq> category_value BEQ then
           ebind (for_each (update_register write_station write_station_id)
                    [0..<NUM_REGISTERS] s4) (\<lambda>s5.
           broadcast_result write_station write_station_id s5)
         else Inr s4))))
      else Inr s)"

text \<open>
  \<^verbatim>\<open>Tomasulo.write\<close>, named \<open>write_stage\<close> here. The selection loop indexes all
  seven rows of the bank.
\<close>

definition write_stage :: "Tomasulo \<Rightarrow> error + Tomasulo" where
  "write_stage s =
     (if length (reservation_stations s) < NUM_RES_STATIONS_Types then Inl IndexError
      else
        ebind (find_write_stations s) (\<lambda>sel.
        ebind (write_store (snd (snd sel)) s) (\<lambda>s1.
        write_other (fst (snd sel)) s1)))"

subsection \<open>The driver\<close>

text \<open>\<^verbatim>\<open>next_cycle\<close>: issue when \<open>pc\<close> is below the program length, execute, write.\<close>

definition next_cycle :: "Tomasulo \<Rightarrow> error + Tomasulo" where
  "next_cycle s =
     ebind (if pc s < int (length (program s)) then issue_stage s else Inr s) (\<lambda>s1.
     ebind (execute s1) (\<lambda>s2.
     ebind (write_stage s2) (\<lambda>s3.
     Inr (s3\<lparr>cycle := cycle s3 + 1\<rparr>))))"

definition all_stations_empty :: "Tomasulo \<Rightarrow> bool" where
  "all_stations_empty s =
     list_all (\<lambda>row. list_all (\<lambda>st. \<not> busy st) row)
       (take NUM_RES_STATIONS_Types (reservation_stations s))"

text \<open>
  The loop of \<^verbatim>\<open>run\<close> with tutorial mode off, which may not terminate: the first
  argument bounds the number of cycles, and \<open>None\<close> says that the bound was reached. The
  flag is the variable \<^verbatim>\<open>all_stations_empty\<close>, False before the first cycle. The
  result is the error of a cycle, or the state in which the loop ends.
\<close>

fun run_loop :: "nat \<Rightarrow> bool \<Rightarrow> Tomasulo \<Rightarrow> (error + Tomasulo) option" where
  "run_loop 0 e s =
     (if pc s < int (length (program s)) \<or> \<not> e then None else Some (Inr s))"
| "run_loop (Suc n) e s =
     (if pc s < int (length (program s)) \<or> \<not> e then
        (case next_cycle s of
           Inl err \<Rightarrow> Some (Inl err)
         | Inr s1 \<Rightarrow> run_loop n (all_stations_empty s1) s1)
      else Some (Inr s))"

text \<open>
  \<^verbatim>\<open>Tomasulo.run\<close> with tutorial mode off. After the loop the method prints the state
  and the counters, which changes no field. Then the test of line 539 holds, since
  \<^verbatim>\<open>write_back\<close> is an integer and never \<^verbatim>\<open>None\<close>, and
  \<^verbatim>\<open>display_simulation_stats\<close> reads \<^verbatim>\<open>self.mispred_entry\<close>, an attribute that the
  class never sets. So a call that ends never returns a value: it ends with the error
  of a cycle, or with AttributeError after the loop, and then it leaves the engine in the
  state in which the loop ended, the second component here.
\<close>

definition run :: "nat \<Rightarrow> Tomasulo \<Rightarrow> (error \<times> Tomasulo option) option" where
  "run fuel s =
     (case run_loop fuel False s of
        None \<Rightarrow> None
      | Some (Inl err) \<Rightarrow> Some (err, None)
      | Some (Inr s1) \<Rightarrow> Some (AttributeError, Some s1))"

text \<open>
  A whole session, observed where the loop of \<^verbatim>\<open>run\<close> ends: construct the engine, load
  the memory image, run the loop. The result is a failure of the construction, of the
  memory load or of a cycle, or the state in which \<^verbatim>\<open>run\<close> leaves the engine.
\<close>

definition simulate ::
  "nat \<Rightarrow> asm list \<Rightarrow> bool \<Rightarrow> hw_row list \<Rightarrow> (int \<times> int) list \<Rightarrow> int \<Rightarrow> (error + Tomasulo) option" where
  "simulate fuel instruction_file is_default_hardware hardware_file memory_file initial_PC =
     (case ebind (init instruction_file is_default_hardware hardware_file initial_PC)
             (initialize_memory memory_file) of
        Inl err \<Rightarrow> Some (Inl err)
      | Inr s \<Rightarrow> run_loop fuel False s)"

subsection \<open>Observing a run\<close>

text \<open>\<open>n\<close> calls of \<^verbatim>\<open>next_cycle\<close>, as a driver that steps the engine makes them.\<close>

fun cycles :: "nat \<Rightarrow> Tomasulo \<Rightarrow> error + Tomasulo" where
  "cycles 0 s = Inr s"
| "cycles (Suc n) s = ebind (next_cycle s) (cycles n)"

definition observe :: "(Tomasulo \<Rightarrow> 'a) \<Rightarrow> error + Tomasulo \<Rightarrow> error + 'a" where
  "observe f r = map_sum id f r"

text \<open>The four timestamps of every instruction, in program order.\<close>

definition timestamps :: "Tomasulo \<Rightarrow> (int \<times> int \<times> int \<times> int) list" where
  "timestamps s = map (\<lambda>i. (issue i, exec_start i, exec_end i, write_back i)) (program s)"

text \<open>The instruction indices held by the busy stations, in bank order.\<close>

definition busy_instructions :: "Tomasulo \<Rightarrow> int list" where
  "busy_instructions s = map inst_index (filter busy (concat (reservation_stations s)))"

text \<open>The counters that \<^verbatim>\<open>get_stats\<close> reports, without the quotient \<^verbatim>\<open>ipc\<close>.\<close>

definition get_stats :: "Tomasulo \<Rightarrow> int \<times> int \<times> int \<times> int" where
  "get_stats s = (cycle s, num_written_insts s, num_mispredictions s, num_beq s)"

text \<open>
  Two relations between a state and a later one: the same PC and speculation stack; the
  same busy flags in the bank and the same load/store queue.
\<close>

definition same_control :: "Tomasulo \<Rightarrow> Tomasulo \<Rightarrow> bool" where
  "same_control s t = (pc t = pc s \<and> system_status_queue t = system_status_queue s)"

definition same_busy :: "Tomasulo \<Rightarrow> Tomasulo \<Rightarrow> bool" where
  "same_busy s t =
     (map (map busy) (reservation_stations t) = map (map busy) (reservation_stations s)
      \<and> load_store_queue t = load_store_queue s)"

text \<open>
  Two states inside the write-back of the station at position \<open>p\<close> whose instruction is
  at \<open>kw\<close>. \<open>retired\<close>: after lines 398 to 402, the counter incremented, the station no
  longer busy and the write-back cycle recorded. \<open>redirected\<close>: after lines 407 to 415 for
  a JUMP station, the PC set (and register 1 written, for a CALL) and the speculation
  stack emptied; this is the state on which the flush starts.
\<close>

definition retired :: "Tomasulo \<Rightarrow> nat \<times> nat \<Rightarrow> nat \<Rightarrow> Tomasulo" where
  "retired s p kw =
     set_inst
       (set_station (s\<lparr>num_written_insts := num_written_insts s + 1\<rparr>) p
          ((get_station s p)\<lparr>busy := False\<rparr>))
       kw ((program s ! kw)\<lparr>write_back := cycle s\<rparr>)"

definition redirected :: "Tomasulo \<Rightarrow> nat \<times> nat \<Rightarrow> nat \<Rightarrow> Tomasulo" where
  "redirected s p kw =
     (if op (get_station s p) = Some CALL
      then (retired s p kw)\<lparr>registers := (registers s)[1 := st_a (get_station s p)],
              pc := st_a (get_station s p) + index (program s ! kw) + 1,
              system_status_queue := []\<rparr>
      else (retired s p kw)\<lparr>pc := vj (get_station s p), system_status_queue := []\<rparr>)"

section \<open>Evaluation of concrete runs\<close>

text \<open>
  Concrete runs are evaluated by the simplifier. The congruence rule keeps it from
  rewriting a continuation before the value it is applied to is known.
\<close>

lemma ebind_weak_cong: "m = m' \<Longrightarrow> ebind m f = ebind m' f"
  by simp

lemma ebind_Inr: "ebind (Inr x) f = f x"
  by (simp add: ebind_def)

lemma ebind_Inl: "ebind (Inl e) f = Inl e"
  by (simp add: ebind_def)

lemma list_update_numeral: "(x # xs)[numeral k := y] = x # xs[pred_numeral k := y]"
  by (simp add: numeral_eq_Suc)

lemma replicate_numeral_Cons: "replicate (numeral k) x = x # replicate (pred_numeral k) x"
  by (simp add: numeral_eq_Suc)

lemma run_loop_numeral:
  "run_loop (numeral k) e s =
     (if pc s < int (length (program s)) \<or> \<not> e then
        (case next_cycle s of
           Inl err \<Rightarrow> Some (Inl err)
         | Inr s1 \<Rightarrow> run_loop (pred_numeral k) (all_stations_empty s1) s1)
      else Some (Inr s))"
  by (simp add: numeral_eq_Suc)

lemma cycles_numeral: "cycles (numeral k) s = ebind (next_cycle s) (cycles (pred_numeral k))"
  by (simp add: numeral_eq_Suc)

lemmas engine_defs =
  simulate_def init_def default_hardware_def make_row_def new_station_def
  new_instruction_def NUM_REGISTERS_def NUM_RES_STATIONS_Types_def mem_index_def
  py_index_def list_get_def get_station_def set_station_def set_inst_def inst_at_def
  positions_def read_first_operand_def read_second_operand_def rename_destination_def
  push_system_status_def issue_stage_def exec_result_def speculation_gate_def
  execute_station_def resolve_address_def execute_memory_access_def
  execute_memory_station_def execute_def select_station_def find_write_stations_def
  lookup_station_def write_store_def clear_status_def flush_station_def
  flush_instructions_after_jump_def broadcast_station_def broadcast_result_def
  update_register_def restore_register_def write_jump_def write_beq_def write_other_def
  write_stage_def next_cycle_def all_stations_empty_def

lemmas eval_simps =
  engine_defs ebind_Inr ebind_Inl Let_def upt_rec list_update_numeral
  replicate_numeral_Cons run_loop_numeral cycles_numeral observe_def timestamps_def busy_instructions_def get_stats_def

section \<open>The initial register file\<close>

text \<open>
  Claim C9. Immediately after the engine is constructed, before any cycle runs, the
  register file is 0, 1, 2, 3, 4, 5, 6, 7: register \<open>i\<close> holds \<open>i\<close>, so the registers 1 to 7
  are not zero. This holds for every program, hardware configuration and initial PC with
  which the construction succeeds.
\<close>

theorem initial_registers:
  "init instruction_file is_default_hardware hardware_file initial_PC = Inr s \<Longrightarrow>
     registers s = [0, 1, 2, 3, 4, 5, 6, 7] \<and> (\<forall>i \<in> {1..7}. registers s ! i \<noteq> 0)"
proof -
  assume h: "init instruction_file is_default_hardware hardware_file initial_PC = Inr s"
  then have r: "registers s = [0, 1, 2, 3, 4, 5, 6, 7]"
    by (auto simp add: init_def ebind_def split: sum.splits)
  have "{1..7::nat} = {1, 2, 3, 4, 5, 6, 7}" by auto
  with r show ?thesis by simp
qed

theorem initial_registers_witness:
  "\<exists>s. init [Addi 1 0 5] True [] 0 = Inr s \<and> registers s = [0, 1, 2, 3, 4, 5, 6, 7]
       \<and> (\<forall>i \<in> {1..7}. registers s ! i \<noteq> 0)"
proof -
  have "\<exists>s. init [Addi 1 0 5] True [] 0 = Inr s"
    by (simp add: eval_simps cong: ebind_weak_cong)
  then obtain s where h: "init [Addi 1 0 5] True [] 0 = Inr s" ..
  from initial_registers [OF h] h show ?thesis by blast
qed

section \<open>Results of the arithmetic stations\<close>

text \<open>
  Claim C6 says that the result of an ADD station is \<open>vj + vk\<close> reduced modulo \<open>2 ^ 16\<close>.
  The code masks the product of a MUL station and does not mask the sum: with 65535 at
  memory address 0, the program \<^verbatim>\<open>LOAD R2, 0(R0); ADD R3, R2, R1\<close> under the default
  hardware ends with 65536 in R3, where the 16-bit sum is 0.
\<close>

theorem add_result_not_wrapped:
  "map_option (observe registers) (simulate 100 [Load 2 0 0, Add 3 2 1] True [] [(0, 65535)] 0)
     = Some (Inr [0, 1, 65535, 65536, 4, 5, 6, 7])
   \<and> (65536 :: int) \<noteq> (65535 + 1) mod 2 ^ 16"
  by (simp add: eval_simps cong: ebind_weak_cong)

section \<open>Timestamps of retired instructions\<close>

text \<open>
  Claim C3 says that the timestamps of every retired instruction are ordered,
  \<open>0 < issue \<le> exec_start \<le> exec_end < write_back\<close>. The run of
  \<^verbatim>\<open>MUL R1, R2, R3; STORE R1, 0(R0)\<close> under the default hardware ends with the
  STORE issued at cycle 2, its execution ended at cycle 8, its execution start recorded as
  cycle 12 and its write-back at cycle 13: the broadcast of the MUL at cycle 12 writes
  \<^verbatim>\<open>exec_start\<close> of the waiting STORE, which had finished executing.
\<close>

theorem store_exec_start_after_exec_end:
  "map_option (observe timestamps) (simulate 100 [Mul 1 2 3, Store 1 0 0] True [] [] 0)
     = Some (Inr [(1, 2, 11, 12), (2, 12, 8, 13)])"
  by (simp add: eval_simps cong: ebind_weak_cong)

section \<open>Write-back arbitration\<close>

text \<open>
  Claim C1 says that in every write-back cycle a STORE station and a station of another
  category can both retire, each being the eligible station of its group with the
  smallest issue cycle. The selection loop keeps one minimum for both groups. In the run
  of \<^verbatim>\<open>STORE R1, 0(R0)\<close> followed by four \<^verbatim>\<open>ADDI\<close> under the default hardware, the
  STORE (issued at cycle 1) and the last ADDI (issued at cycle 5) both finish executing at
  cycle 7. At cycle 8 the selection returns minimum 1, no station for the other
  categories (\<open>-1\<close>) and the STORE station 3; the ADDI, the only eligible station that is
  not a STORE, retires one cycle later, at cycle 9.
\<close>

theorem store_blocks_younger_write_back:
  "ebind (ebind (ebind (init [Store 1 0 0, Addi 2 0 1, Addi 3 0 1, Addi 4 0 1, Addi 5 0 1] True [] 0)
            (cycles 7)) execute) find_write_stations = Inr (1, -1, 3)
   \<and> map_option (observe timestamps)
        (simulate 100 [Store 1 0 0, Addi 2 0 1, Addi 3 0 1, Addi 4 0 1, Addi 5 0 1] True [] [] 0)
      = Some (Inr [(1, 2, 7, 8), (2, 3, 4, 5), (3, 4, 5, 6), (4, 5, 6, 7), (5, 6, 7, 9)])"
  by (simp add: eval_simps cong: ebind_weak_cong)

section \<open>The flush of the load/store queue\<close>

text \<open>
  Claim C2 says that a flush removes from the load/store queue every entry whose
  instruction was issued after the control-flow instruction, so that the queue holds
  exactly the busy memory stations that have not resolved their address. The loop of the
  flush pops the front of the queue only while the front is younger. In the run of
  \<^verbatim>\<open>LOAD R1, 0(R0); BEQ R0, R0, 1; LOAD R2, 0(R0)\<close> under the default hardware the
  taken BEQ (issued at cycle 2) retires at cycle 4; the second LOAD (issued at cycle 3) is
  flushed from its station, and its index 2 stays in the queue behind the older index 0.
  The run ends with the queue holding 2 and no station busy.
\<close>

theorem flush_leaves_younger_queue_entry:
  "observe load_store_queue (ebind (init [Load 1 0 0, Beq 0 0 1, Load 2 0 0] True [] 0) (cycles 4))
     = Inr [0, 2]
   \<and> observe busy_instructions (ebind (init [Load 1 0 0, Beq 0 0 1, Load 2 0 0] True [] 0) (cycles 4))
     = Inr [0]
   \<and> observe timestamps (ebind (init [Load 1 0 0, Beq 0 0 1, Load 2 0 0] True [] 0) (cycles 4))
     = Inr [(1, 2, 0, 0), (2, 3, 3, 4), (3, 0, 0, 0)]
   \<and> map_option (observe load_store_queue)
        (simulate 100 [Load 1 0 0, Beq 0 0 1, Load 2 0 0] True [] [] 0) = Some (Inr [2])"
  by (simp add: eval_simps cong: ebind_weak_cong)

section \<open>The restore of a BEQ that was not taken\<close>

text \<open>
  Claim C10 says that in every reachable state a BEQ that retires not taken finds the
  speculation stack non-empty. With a hardware file that gives the JUMP station zero
  cycles to execute, the run of \<^verbatim>\<open>BEQ R0, R1, 0; CALL 5\<close> fails: the CALL, issued at
  cycle 2, needs no Execute step, retires in its issue cycle and clears the stack while
  the older BEQ (instruction 0) is still busy; at cycle 3 the BEQ retires not taken and
  reads the front of the empty stack.
\<close>

theorem beq_restore_on_empty_stack:
  "observe system_status_queue
     (ebind (init [Beq 0 1 0, Call 5] False
        [(2, 2, Some 4), (2, 2, Some 4), (2, 1, None), (1, 0, None), (4, 2, None),
         (2, 10, None), (2, 1, None)] 0)
        (cycles 2)) = Inr []
   \<and> observe busy_instructions
     (ebind (init [Beq 0 1 0, Call 5] False
        [(2, 2, Some 4), (2, 2, Some 4), (2, 1, None), (1, 0, None), (4, 2, None),
         (2, 10, None), (2, 1, None)] 0)
        (cycles 2)) = Inr [0]
   \<and> simulate 100 [Beq 0 1 0, Call 5] False
        [(2, 2, Some 4), (2, 2, Some 4), (2, 1, None), (1, 0, None), (4, 2, None),
         (2, 10, None), (2, 1, None)] [] 0
      = Some (Inl IndexError)"
  by (simp add: eval_simps cong: ebind_weak_cong)

section \<open>The misprediction scenario\<close>

text \<open>
  The scenario S3 with the immediates 99 and 77 replaced by 9 and 7, which the decoder
  accepts, under the default hardware from PC 0.
\<close>

lemma s3_in_range_run:
  "\<exists>s. simulate 100 [Addi 1 0 1, Beq 1 1 2, Addi 2 0 9, Addi 3 0 7, Addi 4 0 5] True [] [] 0
          = Some (Inr s)
     \<and> registers s = [0, 1, 2, 3, 5, 5, 6, 7] \<and> get_stats s = (11, 3, 1, 1)"
  by (simp add: eval_simps cong: ebind_weak_cong)

text \<open>
  Claim C4 as stated fails: the program of S3 is not run at all, since the decoder exits on
  the immediate 99; and with immediates in range the run ends with 2 in R2 and 3 in R3,
  not 0.
\<close>

theorem s3_as_written_counterexample:
  "simulate 100 [Addi 1 0 1, Beq 1 1 2, Addi 2 0 99, Addi 3 0 77, Addi 4 0 5] True [] [] 0
     = Some (Inl SystemExit)
   \<and> map_option (observe registers)
        (simulate 100 [Addi 1 0 1, Beq 1 1 2, Addi 2 0 9, Addi 3 0 7, Addi 4 0 5] True [] [] 0)
     = Some (Inr [0, 1, 2, 3, 5, 5, 6, 7])"
  using s3_in_range_run by (auto simp add: simulate_def init_def ebind_Inl ebind_Inr observe_def)

text \<open>
  Claim C4, amended. The decoder rejects the program
  \<^verbatim>\<open>ADDI R1,R0,1; BEQ R1,R1,2; ADDI R2,R0,99; ADDI R3,R0,77; ADDI R4,R0,5\<close>, whose
  immediates 99 and 77 lie outside \<open>[-16, 15]\<close>, whatever the bound on the cycles. With
  the immediates 9 and 7 in their place, the run to completion from PC 0 under the default
  hardware ends with R2 = 2 and R3 = 3 (the values the registers have from the
  construction; the two ADDIs are flushed), R4 = 5, exactly one misprediction and exactly
  one counted BEQ.
\<close>

theorem s3_misprediction:
  "simulate n [Addi 1 0 1, Beq 1 1 2, Addi 2 0 99, Addi 3 0 77, Addi 4 0 5] True [] [] 0
     = Some (Inl SystemExit)
   \<and> (\<exists>s. simulate 100 [Addi 1 0 1, Beq 1 1 2, Addi 2 0 9, Addi 3 0 7, Addi 4 0 5] True [] [] 0
             = Some (Inr s)
          \<and> registers s ! 2 = 2 \<and> registers s ! 3 = 3 \<and> registers s ! 4 = 5
          \<and> num_mispredictions s = 1 \<and> num_beq s = 1)"
  using s3_in_range_run by (auto simp add: simulate_def init_def ebind_Inl ebind_Inr get_stats_def)

section \<open>Address resolution\<close>

text \<open>
  Claim C7 as stated fails: it says that an effective address outside \<open>[0, 65535]\<close> is
  fatal. The program \<^verbatim>\<open>LOAD R1, -1(R0)\<close> computes the effective address \<open>-1\<close>; with 42
  at memory address 65535 the run under the default hardware ends normally with 42 in R1.
\<close>

theorem negative_address_counterexample:
  "map_option (observe registers) (simulate 100 [Load 1 (-1) 0] True [] [(65535, 42)] 0)
     = Some (Inr [0, 42, 2, 3, 4, 5, 6, 7])"
  by (simp add: eval_simps cong: ebind_weak_cong)

text \<open>
  Claim C7, amended. Take a busy memory station in the last cycle of its address phase:
  issued before the current cycle, not held by the speculation gate, one address cycle
  left, base operand ready, its instruction at the head of the load/store queue. If the
  effective address \<open>vj + a\<close> lies outside \<open>[-65536, 65535]\<close>, the step of Execute for this
  station fails with an IndexError, and only then. For every effective address \<open>e\<close>
  inside \<open>[-65536, 65535]\<close> the resolution proceeds: \<open>a\<close> becomes \<open>e\<close>, the result is the
  memory word at \<open>e\<close> when \<open>e\<close> is not negative and at \<open>e + 65536\<close> when it is, and the queue
  head is marked to be dropped.
\<close>

theorem address_resolution_index_error:
  assumes "busy (get_station s p)"
    and "inst_at s (inst_index (get_station s p)) = Inr k"
    and "issue (program s ! k) < cycle s"
    and "\<not> speculation_gate s (program s ! k)"
    and "rem_cycles_addr (get_station s p) = 1"
    and "qj (get_station s p) = 0"
    and "load_store_queue s = inst_index (get_station s p) # q"
  shows "(let st = get_station s p; e = vj st + st_a st in
          (execute_memory_station (s, queue_pop) p = Inl IndexError) = (e < -65536 \<or> 65536 \<le> e)
          \<and> (-65536 \<le> e \<and> e < 65536 \<longrightarrow>
               execute_memory_station (s, queue_pop) p =
                 Inr (set_station
                        (set_inst s k
                           (if cycles_for_addr st = 1 then (program s ! k)\<lparr>exec_start := cycle s\<rparr>
                            else program s ! k))
                        p
                        (st\<lparr>rem_cycles_addr := 0, st_a := e,
                            result := memory s (nat (if 0 \<le> e then e else e + 65536))\<rparr>),
                      True)))"
  using assms
  by (auto simp add: execute_memory_station_def resolve_address_def mem_index_def py_index_def
        Let_def ebind_def set_inst_def set_station_def)


theorem address_resolution_index_error_witness:
  "\<exists>s. ebind (ebind (init [Load 1 (-1) 0] True [] 0) (initialize_memory [(65535, 42)])) (cycles 4) = Inr s
     \<and> busy (get_station s (0, 0))
     \<and> inst_at s (inst_index (get_station s (0, 0))) = Inr 0
     \<and> issue (program s ! 0) < cycle s
     \<and> \<not> speculation_gate s (program s ! 0)
     \<and> rem_cycles_addr (get_station s (0, 0)) = 1
     \<and> qj (get_station s (0, 0)) = 0
     \<and> load_store_queue s = inst_index (get_station s (0, 0)) # []
     \<and> vj (get_station s (0, 0)) + st_a (get_station s (0, 0)) = -1
     \<and> execute_memory_station (s, False) (0, 0) \<noteq> Inl IndexError"
proof -
  have "\<exists>s. ebind (ebind (init [Load 1 (-1) 0] True [] 0) (initialize_memory [(65535, 42)])) (cycles 4) = Inr s
     \<and> busy (get_station s (0, 0))
     \<and> inst_at s (inst_index (get_station s (0, 0))) = Inr 0
     \<and> issue (program s ! 0) < cycle s
     \<and> \<not> speculation_gate s (program s ! 0)
     \<and> rem_cycles_addr (get_station s (0, 0)) = 1
     \<and> qj (get_station s (0, 0)) = 0
     \<and> load_store_queue s = inst_index (get_station s (0, 0)) # []
     \<and> vj (get_station s (0, 0)) + st_a (get_station s (0, 0)) = -1"
    by (simp add: eval_simps cong: ebind_weak_cong)
  then obtain s where r: "ebind (ebind (init [Load 1 (-1) 0] True [] 0) (initialize_memory [(65535, 42)])) (cycles 4) = Inr s"
    and h: "busy (get_station s (0, 0))"
      "inst_at s (inst_index (get_station s (0, 0))) = Inr 0"
      "issue (program s ! 0) < cycle s"
      "\<not> speculation_gate s (program s ! 0)"
      "rem_cycles_addr (get_station s (0, 0)) = 1"
      "qj (get_station s (0, 0)) = 0"
      "load_store_queue s = inst_index (get_station s (0, 0)) # []"
    and e: "vj (get_station s (0, 0)) + st_a (get_station s (0, 0)) = -1"
    by blast
  from address_resolution_index_error [OF h, of False] e
  have "execute_memory_station (s, False) (0, 0) \<noteq> Inl IndexError"
    by (simp add: Let_def)
  with r h e show ?thesis by blast
qed

section \<open>Retirement of a JUMP station\<close>

lemma ebind_eq_Inr: "(ebind m f = Inr y) = (\<exists>x. m = Inr x \<and> f x = Inr y)"
  by (cases m) (simp_all add: ebind_def)

lemma for_each_invariant:
  assumes "for_each f ps s = Inr s'" and "P s"
    and step: "\<And>a p b. P a \<Longrightarrow> f a p = Inr b \<Longrightarrow> P b"
  shows "P s'"
  using assms(1,2)
proof (induction ps arbitrary: s)
  case Nil
  then show ?case by simp
next
  case (Cons p ps)
  from Cons.prems(1) obtain a where a: "f s p = Inr a" and r: "for_each f ps a = Inr s'"
    by (auto simp add: ebind_eq_Inr)
  from step [OF Cons.prems(2) a] have "P a" .
  from Cons.IH [OF r this] show ?case .
qed

text \<open>What the steps of a write-back leave alone.\<close>

lemma busy_set_station:
  "busy st = busy (get_station s p) \<Longrightarrow>
   map (map busy) (reservation_stations (set_station s p st)) = map (map busy) (reservation_stations s)"
proof -
  assume b: "busy st = busy (get_station s p)"
  let ?bank = "reservation_stations s"
  let ?row = "?bank ! fst p"
  have row: "map busy (?row[snd p := st]) = map busy ?row"
  proof (cases "snd p < length ?row")
    case True
    with b show ?thesis
      by (simp add: map_update get_station_def list_update_same_conv)
  next
    case False
    then show ?thesis by (simp add: list_update_beyond)
  qed
  show ?thesis
  proof (cases "fst p < length ?bank")
    case True
    with row show ?thesis
      by (simp add: set_station_def map_update list_update_same_conv)
  next
    case False
    then show ?thesis by (simp add: set_station_def list_update_beyond)
  qed
qed

lemma clear_status_frame:
  "clear_status sid s j = Inr t \<Longrightarrow>
     same_control s t \<and> registers t = registers s \<and> reservation_stations t = reservation_stations s
     \<and> load_store_queue t = load_store_queue s \<and> program t = program s"
  by (auto simp add: clear_status_def ebind_eq_Inr same_control_def split: if_splits)

lemma flush_station_frame:
  assumes "flush_station w s p = Inr t"
  shows "same_control s t \<and> registers t = registers s \<and> load_store_queue t = load_store_queue s
         \<and> program t = program s"
proof (cases "busy (get_station s p)")
  case False
  with assms show ?thesis by (simp add: flush_station_def same_control_def Let_def)
next
  case True
  with assms obtain k where k: "inst_at s (inst_index (get_station s p)) = Inr k"
    by (auto simp add: flush_station_def ebind_eq_Inr Let_def)
  show ?thesis
  proof (cases "issue (program s ! k) > w")
    case False
    with assms True k show ?thesis by (simp add: flush_station_def ebind_Inr same_control_def Let_def)
  next
    case g: True
    let ?s0 = "set_station s p ((get_station s p)\<lparr>busy := False\<rparr>)"
    from assms True k g
    have f: "for_each (clear_status (station_id (get_station s p))) [0..<NUM_REGISTERS] ?s0 = Inr t"
      by (simp add: flush_station_def ebind_Inr Let_def)
    have "same_control ?s0 t \<and> registers t = registers ?s0
          \<and> load_store_queue t = load_store_queue ?s0 \<and> program t = program ?s0"
      by (rule for_each_invariant [OF f])
         (auto simp add: same_control_def dest: clear_status_frame)
    then show ?thesis by (simp add: set_station_def same_control_def)
  qed
qed

lemma flush_frame:
  assumes "flush_instructions_after_jump w s = Inr t"
  shows "same_control s t \<and> registers t = registers s"
proof -
  from assms obtain kw s1 q where
    f: "for_each (flush_station (issue (program s ! kw)))
          (positions (reservation_stations s) [0..<NUM_RES_STATIONS_Types]) s = Inr s1"
    and t: "t = s1\<lparr>load_store_queue := q\<rparr>"
    by (auto simp add: flush_instructions_after_jump_def ebind_eq_Inr Let_def)
  have "same_control s s1 \<and> registers s1 = registers s"
    by (rule for_each_invariant [OF f])
       (auto simp add: same_control_def dest: flush_station_frame)
  with t show ?thesis by (simp add: same_control_def)
qed

lemma update_register_frame:
  "update_register w wid s i = Inr t \<Longrightarrow> same_control s t \<and> same_busy s t"
  by (auto simp add: update_register_def ebind_eq_Inr same_control_def same_busy_def split: if_splits)

lemma broadcast_station_frame:
  "broadcast_station w wid s p = Inr t \<Longrightarrow>
     same_control s t \<and> same_busy s t \<and> registers t = registers s"
  by (auto simp add: broadcast_station_def ebind_eq_Inr Let_def same_control_def same_busy_def
        set_inst_def busy_set_station split: if_splits)
     (auto simp add: set_station_def)

lemma inst_at_less: "inst_at s i = Inr k \<Longrightarrow> k < length (program s)"
  by (auto simp add: inst_at_def py_index_def split: if_splits)

lemma update_register_step:
  assumes "update_register w wid s i = Inr a"
  shows "length (registers a) = length (registers s)"
    and "registers a ! j =
           (if j = i \<and> i \<noteq> 0 \<and> register_status s ! i = wid then result w else registers s ! j)"
    and "j \<noteq> i \<Longrightarrow> register_status a ! j = register_status s ! j"
  using assms
  by (auto simp add: update_register_def ebind_eq_Inr list_get_def split: if_splits)

lemma update_loop_nth:
  assumes "for_each (update_register w wid) js s = Inr t" and "distinct js"
  shows "registers t ! j =
           (if j \<in> set js \<and> j \<noteq> 0 \<and> register_status s ! j = wid then result w
            else registers s ! j)"
  using assms
proof (induction js arbitrary: s)
  case Nil
  then show ?case by simp
next
  case (Cons i js)
  from Cons.prems(1) obtain a where a: "update_register w wid s i = Inr a"
    and r: "for_each (update_register w wid) js a = Inr t"
    by (auto simp add: ebind_eq_Inr)
  from Cons.prems(2) have d: "distinct js" and n: "i \<notin> set js" by simp_all
  from Cons.IH [OF r d]
  have t: "registers t ! j =
             (if j \<in> set js \<and> j \<noteq> 0 \<and> register_status a ! j = wid then result w
              else registers a ! j)" .
  show ?case
  proof (cases "j = i")
    case True
    with t n update_register_step(2) [OF a, of j] show ?thesis by simp
  next
    case False
    with t update_register_step(2) [OF a, of j] update_register_step(3) [OF a, of j]
    show ?thesis by simp
  qed
qed

text \<open>The flush and the rename table.\<close>

lemma nth_list_update_if:
  "xs[i := x] ! j = (if i = j \<and> i < length xs then x else xs ! j)"
  by (cases "i < length xs") (auto simp add: list_update_beyond)

lemma for_each_invariant_mem:
  "for_each f ps s = Inr s' \<Longrightarrow> P s \<Longrightarrow>
   (\<And>a p b. P a \<Longrightarrow> p \<in> set ps \<Longrightarrow> f a p = Inr b \<Longrightarrow> P b) \<Longrightarrow> P s'"
proof (induction ps arbitrary: s)
  case Nil
  then show ?case by simp
next
  case (Cons p ps)
  from Cons.prems(1) obtain a where a: "f s p = Inr a" and r: "for_each f ps a = Inr s'"
    by (auto simp add: ebind_eq_Inr)
  have pa: "P a"
    by (rule Cons.prems(3) [OF Cons.prems(2) _ a]) simp
  show ?case
  proof (rule Cons.IH [OF r pa])
    fix a' q b
    assume "P a'" and "q \<in> set ps" and "f a' q = Inr b"
    then show "P b" using Cons.prems(3) [of a' q b] by simp
  qed
qed

lemma get_set_station_other:
  "q \<noteq> p \<Longrightarrow> get_station (set_station s q st) p = get_station s p"
  by (cases q; cases p) (auto simp add: get_station_def set_station_def nth_list_update_if)

lemma get_set_station_same:
  "fst p < length (reservation_stations s) \<Longrightarrow> snd p < length (reservation_stations s ! fst p) \<Longrightarrow>
   get_station (set_station s p st) p = st"
  by (simp add: get_station_def set_station_def)

lemma get_set_station_id:
  "station_id st = station_id (get_station s q) \<Longrightarrow>
   station_id (get_station (set_station s q st) p) = station_id (get_station s p)"
  by (cases q; cases p) (auto simp add: get_station_def set_station_def nth_list_update_if)

lemma lookup_station_range:
  "lookup_station s i = Inr p \<Longrightarrow>
   fst p < length (reservation_stations s) \<and> snd p < length (reservation_stations s ! fst p)"
  by (auto simp add: lookup_station_def list_get_def ebind_eq_Inr split: option.splits if_splits)

lemma positions_set_station:
  "positions (reservation_stations (set_station s p st)) cats = positions (reservation_stations s) cats"
proof -
  have "length (reservation_stations (set_station s p st) ! i) = length (reservation_stations s ! i)" for i
    by (simp add: set_station_def nth_list_update_if)
  then show ?thesis by (simp add: positions_def)
qed

lemma clear_loop_keeps:
  assumes f: "for_each (clear_status sid) js t0 = Inr b" and ne: "sid \<noteq> wid" and wid0: "wid \<noteq> 0"
  shows "(register_status b ! j = wid) = (register_status t0 ! j = wid)
         \<and> reservation_stations b = reservation_stations t0"
  by (rule for_each_invariant [OF f])
     (use ne wid0 in \<open>auto simp add: clear_status_def ebind_eq_Inr list_get_def nth_list_update_if
        split: if_splits\<close>)

lemma flush_keeps_rename:
  assumes f: "flush_instructions_after_jump w t0 = Inr t"
    and wid0: "wid \<noteq> 0"
    and nb: "\<not> busy (get_station t0 p)"
    and uniq: "\<forall>q \<in> set (positions (reservation_stations t0) [0..<NUM_RES_STATIONS_Types]).
                 station_id (get_station t0 q) = wid \<longrightarrow> q = p"
  shows "(register_status t ! j = wid) = (register_status t0 ! j = wid)"
proof -
  let ?P = "\<lambda>a. (register_status a ! j = wid) = (register_status t0 ! j = wid)
               \<and> (\<forall>q. station_id (get_station a q) = station_id (get_station t0 q))
               \<and> \<not> busy (get_station a p)"
  from f obtain kw s1 qu where
    l: "for_each (flush_station (issue (program t0 ! kw)))
          (positions (reservation_stations t0) [0..<NUM_RES_STATIONS_Types]) t0 = Inr s1"
    and t: "t = s1\<lparr>load_store_queue := qu\<rparr>"
    by (auto simp add: flush_instructions_after_jump_def ebind_eq_Inr Let_def)
  have "?P s1"
  proof (rule for_each_invariant_mem [OF l, of ?P])
    show "?P t0" using nb by simp
  next
    fix a q b
    assume a: "?P a"
      and q: "q \<in> set (positions (reservation_stations t0) [0..<NUM_RES_STATIONS_Types])"
      and s: "flush_station (issue (program t0 ! kw)) a q = Inr b"
    show "?P b"
    proof (cases "b = a")
      case True
      with a show ?thesis by simp
    next
      case False
      let ?a0 = "set_station a q ((get_station a q)\<lparr>busy := False\<rparr>)"
      from s False have bq: "busy (get_station a q)"
        and c: "for_each (clear_status (station_id (get_station a q))) [0..<NUM_REGISTERS] ?a0 = Inr b"
        by (auto simp add: flush_station_def ebind_eq_Inr Let_def split: if_splits)
      from a have ids: "station_id (get_station a x) = station_id (get_station t0 x)" for x
        by blast
      from bq a have qp: "q \<noteq> p" by blast
      with q uniq have "station_id (get_station t0 q) \<noteq> wid" by blast
      with ids have ne: "station_id (get_station a q) \<noteq> wid" by simp
      from clear_loop_keeps [OF c ne wid0, of j]
      have r: "(register_status b ! j = wid) = (register_status ?a0 ! j = wid)"
        and bank: "reservation_stations b = reservation_stations ?a0" by simp_all
      have g: "get_station b x = get_station ?a0 x" for x
        using bank by (simp add: get_station_def)
      have "register_status ?a0 = register_status a" by (simp add: set_station_def)
      with r a have 1: "(register_status b ! j = wid) = (register_status t0 ! j = wid)" by simp
      have 2: "\<forall>x. station_id (get_station b x) = station_id (get_station t0 x)"
        using ids by (simp add: g get_set_station_id)
      from a have "\<not> busy (get_station a p)" by blast
      with qp have 3: "\<not> busy (get_station b p)"
        by (simp add: g get_set_station_other)
      from 1 2 3 show ?thesis by simp
    qed
  qed
  with t show ?thesis by simp
qed

lemma sum_case_InrE:
  "(case m of Inl e \<Rightarrow> False | Inr x \<Rightarrow> Q x) \<Longrightarrow> \<exists>x. m = Inr x \<and> Q x"
  by (cases m) simp_all

text \<open>
  Claim C5 as stated fails: it says that the direct write of the displacement \<open>a\<close> into
  register 1 overwrites the rename, so that register 1 holds \<open>a\<close> at the end of the
  write-back cycle of a CALL. In the run of \<^verbatim>\<open>ADDI R2, R0, 1; CALL 3\<close> under the default
  hardware the CALL (instruction 1, displacement 3) retires at cycle 5, the last cycle of
  the run, and register 1 ends as 2, its return address.
\<close>

theorem call_return_address_counterexample:
  "map_option (observe registers) (simulate 100 [Addi 2 0 1, Call 3] True [] [] 0)
     = Some (Inr [0, 2, 1, 3, 4, 5, 6, 7])
   \<and> map_option (observe timestamps) (simulate 100 [Addi 2 0 1, Call 3] True [] [] 0)
     = Some (Inr [(1, 2, 3, 4), (2, 3, 3, 5)])
   \<and> map_option (observe cycle) (simulate 100 [Addi 2 0 1, Call 3] True [] [] 0) = Some (Inr 6)"
  by (simp add: eval_simps cong: ebind_weak_cong)

text \<open>
  Claim C5, amended. Let a JUMP station with a unique id that is not 0 be selected for
  write-back, in an engine whose register file has its eight entries. At the end of the
  write-back \<open>pc\<close> is \<open>a + index + 1\<close> for a CALL and \<open>vj\<close> for a RET, and the speculation
  stack is empty. Register 1 holds the result of the station if the rename table named
  the station for register 1 when the write-back began: the register loop overwrites the
  direct write of \<open>a\<close>. Otherwise register 1 holds \<open>a\<close> for a CALL and is unchanged for a
  RET. The flush pass runs on the state \<open>redirected\<close>, with the PC set and the stack
  emptied, and what follows leaves the load/store queue and the busy flags as the flush
  left them.
\<close>

theorem jump_retirement:
  assumes w: "write_other wid s = Inr s'"
    and wid: "wid \<noteq> -1"
    and wid0: "wid \<noteq> 0"
    and p: "lookup_station s wid = Inr p"
    and cat: "fst p = category_value JUMP"
    and kw: "inst_at s (inst_index (get_station s p)) = Inr kw"
    and len: "length (registers s) = NUM_REGISTERS"
    and uniq: "\<forall>q \<in> set (positions (reservation_stations s) [0..<NUM_RES_STATIONS_Types]).
                 station_id (get_station s q) = wid \<longrightarrow> q = p"
  shows "pc s' = (if op (get_station s p) = Some CALL
                  then st_a (get_station s p) + index (program s ! kw) + 1
                  else vj (get_station s p))
       \<and> system_status_queue s' = []
       \<and> registers s' ! 1 =
           (if register_status s ! 1 = wid then result (get_station s p)
            else if op (get_station s p) = Some CALL then st_a (get_station s p)
            else registers s ! 1)
       \<and> (\<exists>s4. flush_instructions_after_jump ((get_station s p)\<lparr>busy := False\<rparr>)
                   (redirected s p kw) = Inr s4
              \<and> load_store_queue s' = load_store_queue s4
              \<and> map (map busy) (reservation_stations s') = map (map busy) (reservation_stations s4))"
proof -
  let ?W = "(get_station s p)\<lparr>busy := False\<rparr>"
  let ?s1 = "s\<lparr>num_written_insts := num_written_insts s + 1\<rparr>"
  let ?s3 = "retired s p kw"
  let ?sJ = "redirected s p kw"
  have l: "lookup_station ?s1 wid = Inr p"
    using p by (auto simp add: lookup_station_def split: option.splits)
  have g: "get_station ?s1 p = get_station s p"
    by (simp add: get_station_def)
  have i: "inst_at (set_station ?s1 p ?W) (inst_index (get_station s p)) = Inr kw"
    using kw by (simp add: inst_at_def set_station_def)
  have ps: "program (set_station ?s1 p ?W) = program s" "cycle (set_station ?s1 p ?W) = cycle s"
    by (simp_all add: set_station_def)
  from w wid cat l g i ps
  have "ebind (write_jump ?W kw ?s3)
          (\<lambda>s4. ebind (for_each (update_register ?W wid) [0..<NUM_REGISTERS] s4)
                  (broadcast_result ?W wid)) = Inr s'"
    by (simp add: write_other_def Let_def ebind_Inr retired_def)
  then obtain s4 s5 where j: "write_jump ?W kw ?s3 = Inr s4"
    and u: "for_each (update_register ?W wid) [0..<NUM_REGISTERS] s4 = Inr s5"
    and b: "broadcast_result ?W wid s5 = Inr s'"
    by (auto simp add: ebind_eq_Inr)
  have k3: "program ?s3 ! kw = (program s ! kw)\<lparr>write_back := cycle s\<rparr>"
    using inst_at_less [OF kw] by (simp add: retired_def set_inst_def set_station_def)
  have r3: "registers ?s3 = registers s"
    by (simp add: retired_def set_inst_def set_station_def)
  from j len r3 k3 have f: "flush_instructions_after_jump ?W ?sJ = Inr s4"
    by (auto simp add: write_jump_def ebind_Inr NUM_REGISTERS_def redirected_def split: if_splits)
  have sJ: "system_status_queue ?sJ = []"
    "pc ?sJ = (if op (get_station s p) = Some CALL
               then st_a (get_station s p) + index (program s ! kw) + 1
               else vj (get_station s p))"
    "registers ?sJ ! 1 = (if op (get_station s p) = Some CALL
                           then st_a (get_station s p) else registers s ! 1)"
    "register_status ?sJ = register_status s"
    using len r3 by (simp_all add: NUM_REGISTERS_def redirected_def retired_def set_inst_def
        set_station_def)
  have bankJ: "reservation_stations ?sJ = reservation_stations (set_station s p ?W)"
    by (simp add: redirected_def retired_def set_inst_def set_station_def)
  have gJ: "get_station ?sJ x = get_station (set_station s p ?W) x" for x
    using bankJ by (simp add: get_station_def)
  have nbJ: "\<not> busy (get_station ?sJ p)"
    using lookup_station_range [OF p] by (simp add: gJ get_set_station_same)
  have uniqJ: "\<forall>q \<in> set (positions (reservation_stations ?sJ) [0..<NUM_RES_STATIONS_Types]).
                 station_id (get_station ?sJ q) = wid \<longrightarrow> q = p"
    using uniq by (simp add: bankJ positions_set_station gJ get_set_station_id)
  from flush_keeps_rename [OF f wid0 nbJ uniqJ, of 1] sJ(4)
  have rn: "(register_status s4 ! 1 = wid) = (register_status s ! 1 = wid)"
    by simp
  from flush_frame [OF f] have f4: "same_control ?sJ s4" "registers s4 = registers ?sJ"
    by simp_all
  have u5: "same_control s4 s5 \<and> same_busy s4 s5"
    by (rule for_each_invariant [OF u])
       (auto simp add: same_control_def same_busy_def dest: update_register_frame)
  have r5: "registers s5 ! 1 =
              (if register_status s4 ! 1 = wid then result ?W else registers s4 ! 1)"
    using update_loop_nth [OF u, of 1] by (simp add: NUM_REGISTERS_def)
  from b have b': "for_each (broadcast_station ?W wid)
                     (positions (reservation_stations s5) [0..<NUM_RES_STATIONS_Types]) s5 = Inr s'"
    by (simp add: broadcast_result_def)
  have b5: "same_control s5 s' \<and> same_busy s5 s' \<and> registers s' = registers s5"
    by (rule for_each_invariant [OF b'])
       (auto simp add: same_control_def same_busy_def dest: broadcast_station_frame)
  have c1: "pc s' = pc ?sJ" "system_status_queue s' = []"
    using sJ(1) f4(1) u5 b5 by (simp_all add: same_control_def)
  have c2: "registers s' ! 1 =
              (if register_status s ! 1 = wid then result (get_station s p)
               else registers ?sJ ! 1)"
    using r5 rn f4(2) b5 by simp
  have c3: "load_store_queue s' = load_store_queue s4
            \<and> map (map busy) (reservation_stations s') = map (map busy) (reservation_stations s4)"
    using u5 b5 by (simp add: same_busy_def)
  from c1 c2 c3 sJ(2,3) f show ?thesis by auto
qed

theorem jump_retirement_witness:
  "\<exists>s s'. ebind (ebind (init [Addi 2 0 1, Call 3] True [] 0) (cycles 4)) execute = Inr s
      \<and> write_other 7 s = Inr s'
      \<and> (7 :: int) \<noteq> -1 \<and> (7 :: int) \<noteq> 0
      \<and> lookup_station s 7 = Inr (3, 0)
      \<and> fst (3 :: nat, 0 :: nat) = category_value JUMP
      \<and> inst_at s (inst_index (get_station s (3, 0))) = Inr 1
      \<and> length (registers s) = NUM_REGISTERS
      \<and> (\<forall>q \<in> set (positions (reservation_stations s) [0..<NUM_RES_STATIONS_Types]).
             station_id (get_station s q) = 7 \<longrightarrow> q = (3, 0))
      \<and> op (get_station s (3, 0)) = Some CALL
      \<and> register_status s ! 1 = 7
      \<and> st_a (get_station s (3, 0)) = 3
      \<and> result (get_station s (3, 0)) = 2
      \<and> pc s' = 5
      \<and> system_status_queue s' = []
      \<and> registers s' ! 1 = 2"
proof -
  have "case ebind (ebind (init [Addi 2 0 1, Call 3] True [] 0) (cycles 4)) execute of
          Inl e \<Rightarrow> False
        | Inr s \<Rightarrow>
            (case write_other 7 s of Inl e \<Rightarrow> False | Inr s' \<Rightarrow> True)
          \<and> lookup_station s 7 = Inr (3, 0)
          \<and> inst_at s (inst_index (get_station s (3, 0))) = Inr 1
          \<and> length (registers s) = NUM_REGISTERS
          \<and> (\<forall>q \<in> set (positions (reservation_stations s) [0..<NUM_RES_STATIONS_Types]).
                 station_id (get_station s q) = 7 \<longrightarrow> q = (3, 0))
          \<and> op (get_station s (3, 0)) = Some CALL
          \<and> register_status s ! 1 = 7
          \<and> st_a (get_station s (3, 0)) = 3
          \<and> result (get_station s (3, 0)) = 2
          \<and> index (program s ! 1) = 1"
    by (simp add: eval_simps cong: ebind_weak_cong)
  from sum_case_InrE [OF this] obtain s where
    r: "ebind (ebind (init [Addi 2 0 1, Call 3] True [] 0) (cycles 4)) execute = Inr s"
    and w0: "case write_other 7 s of Inl e \<Rightarrow> False | Inr s' \<Rightarrow> True"
    and p: "lookup_station s 7 = Inr (3, 0)"
    and kw: "inst_at s (inst_index (get_station s (3, 0))) = Inr 1"
    and len: "length (registers s) = NUM_REGISTERS"
    and uniq: "\<forall>q \<in> set (positions (reservation_stations s) [0..<NUM_RES_STATIONS_Types]).
                 station_id (get_station s q) = 7 \<longrightarrow> q = (3, 0)"
    and c: "op (get_station s (3, 0)) = Some CALL" "register_status s ! 1 = 7"
      "st_a (get_station s (3, 0)) = 3" "result (get_station s (3, 0)) = 2"
      "index (program s ! 1) = 1"
    by blast
  from sum_case_InrE [OF w0] obtain s' where w: "write_other 7 s = Inr s'"
    by blast
  have wid: "(7 :: int) \<noteq> -1" and wid0: "(7 :: int) \<noteq> 0" by simp_all
  have cat: "fst (3 :: nat, 0 :: nat) = category_value JUMP" by simp
  from jump_retirement [OF w wid wid0 p cat kw len uniq] c
  have "pc s' = 5 \<and> system_status_queue s' = [] \<and> registers s' ! 1 = 2"
    by simp
  with r w p kw len uniq c wid wid0 cat show ?thesis by blast
qed

end
